theory Spec2Isabelle
  imports Complex_Main "HOL-Library.Word" "HOL-Library.AList"
begin

section \<open>The sampling script \<open>image_sample_skip.py\<close>\<close>

text \<open>
  The script parses its arguments, builds a model and a diffusion object from an external
  library, and then runs \<open>main\<close>'s sampling loop: every iteration asks the external sampling
  routine for one batch, turns the batch into bytes, gathers the batches of all workers and
  appends them to \<open>all_images\<close> (and the labels to \<open>all_labels\<close>). After the loop the
  arrays are concatenated, cut to \<open>num_samples\<close> rows and saved by the worker of rank 0.

  The embedding follows one worker. Everything the script only calls (the diffusion
  library, \<open>torch.distributed\<close>, the logger, the random number generator, floating-point
  arithmetic) is a field of the record \<open>env\<close>; the script's own control flow and data flow
  are the definitions below. Calls with an effect outside the process are recorded, in
  program order, in a list of events.
\<close>

subsection \<open>Values\<close>

text \<open>Values of parsed command-line arguments that the script hands on without looking
  at them.\<close>

datatype pyval = PInt int | PFloat real | PBool bool | PStr string | PNone

text \<open>The fields of \<open>args\<close> that \<open>main\<close> reads from line 53 on.\<close>

record args =
  num_samples :: int
  batch_size :: int
  image_size :: int
  class_cond :: bool
  use_ddim :: bool
  clip_denoised :: bool
  guide_start :: pyval
  guide_scale :: pyval
  blur_sigma :: pyval

text \<open>An element of a floating-point tensor: a finite number, an infinity or a NaN.\<close>

datatype fval = Fin real | PInf | NInf | NaN

text \<open>
  A four-dimensional tensor or array: its shape and its elements in row-major order.
  A tensor of the library always has \<open>dim0 * dim1 * dim2 * dim3\<close> elements.
\<close>

record 'a tensor4 =
  dim0 :: nat
  dim1 :: nat
  dim2 :: nat
  dim3 :: nat
  elems :: "'a list"

definition numel :: "'a tensor4 \<Rightarrow> nat" where
  "numel t = dim0 t * dim1 t * dim2 t * dim3 t"

definition well_formed :: "'a tensor4 \<Rightarrow> bool" where
  "well_formed t = (length (elems t) = numel t)"

datatype sampler = P_sample_loop | Ddim_sample_loop

datatype payload = Samples | Labels

datatype error = ValueError

text \<open>
  The calls that leave the process, as \<open>main\<close> makes them: the call of the sampling
  routine with its arguments (shape, \<open>clip_denoised\<close>, \<open>model_kwargs\<close>, \<open>guidance_kwargs\<close>),
  \<open>dist.all_gather\<close>, the two log lines that do not read the clock, \<open>np.savez\<close> and
  \<open>dist.barrier\<close>.
\<close>

datatype event =
    Sample_call sampler "int \<times> int \<times> int \<times> int" bool
      "(string \<times> int list) list" "(string \<times> pyval) list"
  | All_gather payload
  | Log_created int
  | Log_saving string
  | Save_npz string "8 word tensor4" "int list option"
  | Barrier

text \<open>
  What the script imports and calls. \<open>sample_loop\<close> stands for \<open>diffusion.p_sample_loop\<close>
  and \<open>diffusion.ddim_sample_loop\<close>, \<open>randint\<close> for \<open>th.randint\<close>; their last two
  arguments are the worker that calls and the number of the call, which stand for the state
  of that worker's random number generator. \<open>fl_add\<close> and \<open>fl_mul\<close> are the tensor's
  floating-point addition and multiplication, \<open>cast_nonfinite\<close> is the byte a conversion
  to \<open>uint8\<close> gives for an infinity or a NaN; nothing is assumed about the three.
\<close>

record env =
  world_size :: nat
  rank :: nat
  get_dir :: string
  NUM_CLASSES :: int
  randint :: "int \<Rightarrow> int \<Rightarrow> int \<Rightarrow> nat \<Rightarrow> nat \<Rightarrow> int list"
  sample_loop :: "sampler \<Rightarrow> int \<times> int \<times> int \<times> int \<Rightarrow> bool \<Rightarrow>
    (string \<times> int list) list \<Rightarrow> (string \<times> pyval) list \<Rightarrow> nat \<Rightarrow> nat \<Rightarrow> fval tensor4"
  fl_add :: "fval \<Rightarrow> fval \<Rightarrow> fval"
  fl_mul :: "fval \<Rightarrow> fval \<Rightarrow> fval"
  cast_nonfinite :: "fval \<Rightarrow> 8 word"

subsection \<open>Tensor operations\<close>

text \<open>\<open>Tensor.clamp(lo, hi)\<close> on one element: \<open>min(max(x, lo), hi)\<close>; a NaN stays a NaN.\<close>

definition clamp :: "real \<Rightarrow> real \<Rightarrow> fval \<Rightarrow> fval" where
  "clamp lo hi x =
     (case x of Fin r \<Rightarrow> Fin (min (max r lo) hi) | PInf \<Rightarrow> Fin hi | NInf \<Rightarrow> Fin lo
      | NaN \<Rightarrow> NaN)"

text \<open>Conversion of a float to an integer truncates towards zero.\<close>

definition trunc :: "real \<Rightarrow> int" where
  "trunc r = (if 0 \<le> r then \<lfloor>r\<rfloor> else \<lceil>r\<rceil>)"

text \<open>\<open>.to(th.uint8)\<close> on one element.\<close>

definition to_uint8 :: "env \<Rightarrow> fval \<Rightarrow> 8 word" where
  "to_uint8 e x = (case x of Fin r \<Rightarrow> word_of_int (trunc r) | _ \<Rightarrow> cast_nonfinite e x)"

text \<open>Line 80 on one element: \<open>((x + 1) * 127.5).clamp(0, 255).to(th.uint8)\<close>.\<close>

definition to_pixel :: "env \<Rightarrow> fval \<Rightarrow> 8 word" where
  "to_pixel e x = to_uint8 e (clamp 0 255 (fl_mul e (fl_add e x (Fin 1)) (Fin 127.5)))"

definition map_tensor :: "('a \<Rightarrow> 'b) \<Rightarrow> 'a tensor4 \<Rightarrow> 'b tensor4" where
  "map_tensor f t =
     \<lparr>dim0 = dim0 t, dim1 = dim1 t, dim2 = dim2 t, dim3 = dim3 t, elems = map f (elems t)\<rparr>"

text \<open>
  Line 81, \<open>sample.permute(0, 2, 3, 1)\<close>: the element at \<open>[i, y, x, k]\<close> of the result is
  the element at \<open>[i, k, y, x]\<close> of the argument. \<open>contiguous()\<close>, \<open>cpu()\<close> and \<open>numpy()\<close>
  keep shape and elements.
\<close>

definition permute_0231 :: "'a tensor4 \<Rightarrow> 'a tensor4" where
  "permute_0231 t =
     \<lparr>dim0 = dim0 t, dim1 = dim2 t, dim2 = dim3 t, dim3 = dim1 t,
      elems = concat (map (\<lambda>i. concat (map (\<lambda>y. concat (map (\<lambda>x.
                map (\<lambda>k. elems t ! (((i * dim1 t + k) * dim2 t + y) * dim3 t + x))
                  [0..<dim1 t]) [0..<dim3 t])) [0..<dim2 t])) [0..<dim0 t])\<rparr>"

text \<open>
  \<open>np.concatenate(arrays, axis=0)\<close>: raises \<open>ValueError\<close> for an empty list and for arrays
  that differ in another dimension than the first.
\<close>

definition np_concatenate :: "'a tensor4 list \<Rightarrow> error + 'a tensor4" where
  "np_concatenate arrs =
     (case arrs of
        [] \<Rightarrow> Inl ValueError
      | a # rest \<Rightarrow>
          if list_all (\<lambda>b. dim1 b = dim1 a \<and> dim2 b = dim2 a \<and> dim3 b = dim3 a) rest
          then Inr \<lparr>dim0 = sum_list (map dim0 arrs), dim1 = dim1 a, dim2 = dim2 a,
                    dim3 = dim3 a, elems = concat (map elems arrs)\<rparr>
          else Inl ValueError)"

text \<open>The same for the one-dimensional label arrays.\<close>

definition np_concatenate1 :: "'a list list \<Rightarrow> error + 'a list" where
  "np_concatenate1 arrs = (case arrs of [] \<Rightarrow> Inl ValueError | _ \<Rightarrow> Inr (concat arrs))"

text \<open>The end of a slice \<open>[:n]\<close> of a sequence of length \<open>len\<close>: a negative \<open>n\<close> counts
  from the end.\<close>

definition slice_stop :: "nat \<Rightarrow> int \<Rightarrow> nat" where
  "slice_stop len n = (if n < 0 then nat (max 0 (int len + n)) else min (nat n) len)"

text \<open>\<open>arr[:n]\<close>, the first rows of an array.\<close>

definition take_rows :: "int \<Rightarrow> 'a tensor4 \<Rightarrow> 'a tensor4" where
  "take_rows n a =
     (let k = slice_stop (dim0 a) n
      in \<lparr>dim0 = k, dim1 = dim1 a, dim2 = dim2 a, dim3 = dim3 a,
          elems = take (k * (dim1 a * dim2 a * dim3 a)) (elems a)\<rparr>)"

definition take_labels :: "int \<Rightarrow> 'a list \<Rightarrow> 'a list" where
  "take_labels n l = take (slice_stop (length l) n) l"

subsection \<open>Strings and paths\<close>

text \<open>\<open>str\<close> of a dimension, which is never negative.\<close>

function str_nat :: "nat \<Rightarrow> string" where
  "str_nat n =
     (if n < 10 then [''0123456789'' ! n]
      else str_nat (n div 10) @ [''0123456789'' ! (n mod 10)])"
  by pat_completeness auto
termination
  by (relation "measure id") auto

declare str_nat.simps [simp del]

text \<open>\<open>sep.join(parts)\<close>.\<close>

fun join :: "string \<Rightarrow> string list \<Rightarrow> string" where
  "join sep [] = []"
| "join sep [p] = p"
| "join sep (p # q # ps) = p @ sep @ join sep (q # ps)"

text \<open>\<open>os.path.join(a, b)\<close> of \<open>posixpath\<close>.\<close>

definition os_path_join :: "string \<Rightarrow> string \<Rightarrow> string" where
  "os_path_join a b =
     (if b \<noteq> [] \<and> hd b = CHR ''/'' then b
      else if a = [] \<or> last a = CHR ''/'' then a @ b
      else a @ ''/'' @ b)"

subsection \<open>The sampling loop\<close>

text \<open>
  The variables of \<open>main\<close> that the loop changes, the events so far, and \<open>tick\<close>, the
  number of loop iterations made so far (it numbers the calls of the random routines).
\<close>

record state =
  all_images :: "8 word tensor4 list"
  all_labels :: "int list list"
  events :: "event list"
  tick :: nat

text \<open>Lines 54 to 59.\<close>

definition guidance_kwargs :: "args \<Rightarrow> (string \<times> pyval) list" where
  "guidance_kwargs a =
     AList.update ''blur_sigma'' (blur_sigma a)
       (AList.update ''guide_scale'' (guide_scale a)
         (AList.update ''guide_start'' (guide_start a) []))"

definition init_state :: state where
  "init_state = \<lparr>all_images = [], all_labels = [], events = [], tick = 0\<rparr>"

text \<open>
  Lines 64 to 82 on worker \<open>r\<close> in iteration \<open>t\<close>. All workers run the script with the
  same arguments, so this is what each of them computes before the gather.
\<close>

definition classes :: "env \<Rightarrow> args \<Rightarrow> nat \<Rightarrow> nat \<Rightarrow> int list" where
  "classes e a r t = randint e 0 (NUM_CLASSES e) (batch_size a) r t"

definition model_kwargs :: "env \<Rightarrow> args \<Rightarrow> nat \<Rightarrow> nat \<Rightarrow> (string \<times> int list) list" where
  "model_kwargs e a r t =
     (if class_cond a then AList.update ''y'' (classes e a r t) [] else [])"

definition sample_fn :: "args \<Rightarrow> sampler" where
  "sample_fn a = (if \<not> use_ddim a then P_sample_loop else Ddim_sample_loop)"

definition shape_arg :: "args \<Rightarrow> int \<times> int \<times> int \<times> int" where
  "shape_arg a = (batch_size a, 3, image_size a, image_size a)"

definition raw_sample :: "env \<Rightarrow> args \<Rightarrow> nat \<Rightarrow> nat \<Rightarrow> fval tensor4" where
  "raw_sample e a r t =
     sample_loop e (sample_fn a) (shape_arg a) (clip_denoised a) (model_kwargs e a r t)
       (guidance_kwargs a) r t"

definition sample :: "env \<Rightarrow> args \<Rightarrow> nat \<Rightarrow> nat \<Rightarrow> 8 word tensor4" where
  "sample e a r t = permute_0231 (map_tensor (to_pixel e) (raw_sample e a r t))"

text \<open>
  Lines 84 to 85 and 88 to 91: \<open>dist.all_gather\<close> fills the list with the tensors of the
  workers \<open>0, \<dots>, world_size - 1\<close>, in this order.
\<close>

definition gathered_samples :: "env \<Rightarrow> args \<Rightarrow> nat \<Rightarrow> 8 word tensor4 list" where
  "gathered_samples e a t = map (\<lambda>r. sample e a r t) [0..<world_size e]"

definition gathered_labels :: "env \<Rightarrow> args \<Rightarrow> nat \<Rightarrow> int list list" where
  "gathered_labels e a t = map (\<lambda>r. classes e a r t) [0..<world_size e]"

text \<open>The body of the \<open>while\<close> loop, lines 64 to 93.\<close>

definition loop_body :: "env \<Rightarrow> args \<Rightarrow> state \<Rightarrow> state" where
  "loop_body e a st =
     (let t = tick st;
          ev1 = events st @
                [Sample_call (sample_fn a) (shape_arg a) (clip_denoised a)
                   (model_kwargs e a (rank e) t) (guidance_kwargs a),
                 All_gather Samples];
          images = all_images st @ gathered_samples e a t;
          ev2 = (if class_cond a then ev1 @ [All_gather Labels] else ev1);
          labels = (if class_cond a then all_labels st @ gathered_labels e a t
                    else all_labels st)
      in \<lparr>all_images = images, all_labels = labels,
          events = ev2 @ [Log_created (int (length images) * batch_size a)],
          tick = t + 1\<rparr>)"

text \<open>The condition of line 63.\<close>

definition more_samples :: "args \<Rightarrow> state \<Rightarrow> bool" where
  "more_samples a st = (int (length (all_images st)) * batch_size a < num_samples a)"

text \<open>The loop of lines 63 to 93; \<open>None\<close> when it runs forever.\<close>

partial_function (option) sampling_loop :: "env \<Rightarrow> args \<Rightarrow> state \<Rightarrow> state option" where
  "sampling_loop e a st =
     (if more_samples a st then sampling_loop e a (loop_body e a st) else Some st)"

declare sampling_loop.simps [code]

subsection \<open>After the loop\<close>

text \<open>The result of a run: the events, and the exception or the two arrays.\<close>

record run =
  run_events :: "event list"
  run_result :: "error + 8 word tensor4 \<times> int list option"

text \<open>Lines 101 to 102.\<close>

definition shape_str :: "'a tensor4 \<Rightarrow> string" where
  "shape_str arr = join ''x'' (map str_nat [dim0 arr, dim1 arr, dim2 arr, dim3 arr])"

definition out_path :: "env \<Rightarrow> 'a tensor4 \<Rightarrow> string" where
  "out_path e arr = os_path_join (get_dir e) (''samples_'' @ shape_str arr @ ''.npz'')"

text \<open>Lines 100 to 109.\<close>

definition save_and_barrier ::
  "env \<Rightarrow> args \<Rightarrow> state \<Rightarrow> 8 word tensor4 \<Rightarrow> int list option \<Rightarrow> run" where
  "save_and_barrier e a st arr label_arr =
     (let ev = (if rank e = 0
                then [Log_saving (out_path e arr),
                      if class_cond a then Save_npz (out_path e arr) arr label_arr
                      else Save_npz (out_path e arr) arr None]
                else [])
      in \<lparr>run_events = events st @ ev @ [Barrier], run_result = Inr (arr, label_arr)\<rparr>)"

text \<open>Lines 95 to 109. An exception ends the run at once.\<close>

definition after_loop :: "env \<Rightarrow> args \<Rightarrow> state \<Rightarrow> run" where
  "after_loop e a st =
     (case np_concatenate (all_images st) of
        Inl err \<Rightarrow> \<lparr>run_events = events st, run_result = Inl err\<rparr>
      | Inr arr0 \<Rightarrow>
          let arr = take_rows (num_samples a) arr0
          in if class_cond a
             then (case np_concatenate1 (all_labels st) of
                     Inl err \<Rightarrow> \<lparr>run_events = events st, run_result = Inl err\<rparr>
                   | Inr l0 \<Rightarrow>
                       save_and_barrier e a st arr (Some (take_labels (num_samples a) l0)))
             else save_and_barrier e a st arr None)"

text \<open>\<open>main\<close> from line 53 on; \<open>None\<close> when the loop runs forever.\<close>

definition main :: "env \<Rightarrow> args \<Rightarrow> run option" where
  "main e a = map_option (after_loop e a) (sampling_loop e a init_state)"

subsection \<open>What is assumed of the library, and what is observed of a run\<close>

text \<open>
  The sampling routine returns a tensor of the shape it was asked for, here
  \<open>(batch_size, 3, image_size, image_size)\<close>; \<open>th.randint\<close> returns as many numbers as
  its \<open>size\<close> says. The script relies on both and checks neither.
\<close>

definition sample_loop_contract :: "env \<Rightarrow> args \<Rightarrow> bool" where
  "sample_loop_contract e a =
     (\<forall>r t. dim0 (raw_sample e a r t) = nat (batch_size a) \<and>
            dim1 (raw_sample e a r t) = 3 \<and>
            dim2 (raw_sample e a r t) = nat (image_size a) \<and>
            dim3 (raw_sample e a r t) = nat (image_size a) \<and>
            well_formed (raw_sample e a r t))"

definition randint_contract :: "env \<Rightarrow> args \<Rightarrow> bool" where
  "randint_contract e a = (\<forall>r t. length (classes e a r t) = nat (batch_size a))"

text \<open>The number \<open>ceil(num_samples / (batch_size * world_size))\<close>.\<close>

definition iterations :: "args \<Rightarrow> nat \<Rightarrow> nat" where
  "iterations a w =
     nat \<lceil>real_of_int (num_samples a) / real_of_int (batch_size a * int w)\<rceil>"

text \<open>The events of iteration \<open>t\<close> of a run that starts with empty lists.\<close>

definition iteration_events :: "env \<Rightarrow> args \<Rightarrow> nat \<Rightarrow> event list" where
  "iteration_events e a t =
     [Sample_call (sample_fn a) (shape_arg a) (clip_denoised a)
        (model_kwargs e a (rank e) t) (guidance_kwargs a),
      All_gather Samples] @
     (if class_cond a then [All_gather Labels] else []) @
     [Log_created (int (Suc t * world_size e) * batch_size a)]"

fun is_all_gather :: "event \<Rightarrow> bool" where
  "is_all_gather (All_gather p) = True"
| "is_all_gather ev = False"

fun is_sample_call :: "event \<Rightarrow> bool" where
  "is_sample_call (Sample_call f sh c mk gk) = True"
| "is_sample_call ev = False"

fun is_save :: "event \<Rightarrow> bool" where
  "is_save (Save_npz p arr l) = True"
| "is_save ev = False"

definition all_gathers :: "event list \<Rightarrow> nat" where
  "all_gathers evs = length (filter is_all_gather evs)"

definition barriers :: "event list \<Rightarrow> nat" where
  "barriers evs = count_list evs Barrier"

definition sample_calls :: "event list \<Rightarrow> event list" where
  "sample_calls evs = filter is_sample_call evs"

definition saves :: "event list \<Rightarrow> event list" where
  "saves evs = filter is_save evs"

subsection \<open>A small run\<close>

text \<open>
  Two workers, three samples of one pixel each, with labels. The stand-ins for the library
  compute exactly and return the same batch in every call.
\<close>

fun exact_add :: "fval \<Rightarrow> fval \<Rightarrow> fval" where
  "exact_add (Fin p) (Fin q) = Fin (p + q)"
| "exact_add x y = NaN"

fun exact_mul :: "fval \<Rightarrow> fval \<Rightarrow> fval" where
  "exact_mul (Fin p) (Fin q) = Fin (p * q)"
| "exact_mul x y = NaN"

fun constant_batch ::
  "sampler \<Rightarrow> int \<times> int \<times> int \<times> int \<Rightarrow> bool \<Rightarrow> (string \<times> int list) list \<Rightarrow>
   (string \<times> pyval) list \<Rightarrow> nat \<Rightarrow> nat \<Rightarrow> fval tensor4" where
  "constant_batch f (n, c, h, w) clip mk gk r t =
     \<lparr>dim0 = nat n, dim1 = nat c, dim2 = nat h, dim3 = nat w,
      elems = concat (replicate (nat n * nat h * nat w) (replicate (nat c - 1) (Fin (- 1 / 2))
                @ replicate (min 1 (nat c)) (Fin 2)))\<rparr>"

definition env0 :: env where
  "env0 = \<lparr>world_size = 2, rank = 0, get_dir = ''RESULTS/run'', NUM_CLASSES = 1000,
            randint = (\<lambda>low high n r t. replicate (nat n) (low + int r)),
            sample_loop = constant_batch, fl_add = exact_add, fl_mul = exact_mul,
            cast_nonfinite = (\<lambda>x. 0)\<rparr>"

definition args0 :: args where
  "args0 = \<lparr>num_samples = 3, batch_size = 1, image_size = 1, class_cond = True,
             use_ddim = False, clip_denoised = True, guide_start = PInt 250,
             guide_scale = PFloat 1.1, blur_sigma = PFloat 3\<rparr>"

section \<open>Properties of the sampling loop\<close>

subsection \<open>One iteration and many\<close>

lemma loop_body_fields:
  "all_images (loop_body e a st) = all_images st @ gathered_samples e a (tick st)"
  "all_labels (loop_body e a st) =
     (if class_cond a then all_labels st @ gathered_labels e a (tick st) else all_labels st)"
  "tick (loop_body e a st) = Suc (tick st)"
  by (simp_all add: loop_body_def Let_def)

lemma length_gathered_samples: "length (gathered_samples e a t) = world_size e"
  by (simp add: gathered_samples_def)

lemma length_gathered_labels: "length (gathered_labels e a t) = world_size e"
  by (simp add: gathered_labels_def)

lemma iterate_tick: "tick ((loop_body e a ^^ k) st) = tick st + k"
  by (induction k) (simp_all add: loop_body_fields)

lemma iterate_images:
  "all_images ((loop_body e a ^^ k) st) =
     all_images st @ concat (map (gathered_samples e a) [tick st..<tick st + k])"
  by (induction k) (simp_all add: loop_body_fields iterate_tick)

lemma iterate_labels:
  "all_labels ((loop_body e a ^^ k) st) =
     (if class_cond a
      then all_labels st @ concat (map (gathered_labels e a) [tick st..<tick st + k])
      else all_labels st)"
  by (induction k) (simp_all add: loop_body_fields iterate_tick)

lemma length_concat_gathered:
  "length (concat (map (gathered_samples e a) [i..<j])) = (j - i) * world_size e"
  by (simp add: length_concat length_gathered_samples comp_def sum_list_triv)

lemma iterate_length:
  "length (all_images ((loop_body e a ^^ k) st)) = length (all_images st) + k * world_size e"
  by (simp add: iterate_images length_concat_gathered)

lemma sampling_loop_iterate:
  "(\<And>j. j < k \<Longrightarrow> more_samples a ((loop_body e a ^^ j) st)) \<Longrightarrow>
   \<not> more_samples a ((loop_body e a ^^ k) st) \<Longrightarrow>
   sampling_loop e a st = Some ((loop_body e a ^^ k) st)"
proof (induction k arbitrary: st)
  case 0
  then show ?case by (simp add: sampling_loop.simps)
next
  case (Suc k)
  have first: "more_samples a st" using Suc.prems(1) [of 0] by simp
  have "sampling_loop e a (loop_body e a st) = Some ((loop_body e a ^^ k) (loop_body e a st))"
  proof (rule Suc.IH)
    fix j assume "j < k"
    then show "more_samples a ((loop_body e a ^^ j) (loop_body e a st))"
      using Suc.prems(1) [of "Suc j"] by (simp add: funpow_swap1)
  next
    show "\<not> more_samples a ((loop_body e a ^^ k) (loop_body e a st))"
      using Suc.prems(2) by (simp add: funpow_swap1)
  qed
  with first show ?case
    by (subst sampling_loop.simps) (simp add: funpow_swap1)
qed

lemma sampling_loop_stops:
  assumes "sampling_loop e a st = Some st'"
  shows "\<not> more_samples a st'"
  by (rule sampling_loop.raw_induct [where P = "\<lambda>e a st st'. \<not> more_samples a st'", OF _ assms])
    (auto split: if_splits)

lemma more_samples_iterate:
  assumes "1 \<le> batch_size a" "1 \<le> w"
  shows "(int (j * w) * batch_size a < num_samples a) = (j < iterations a w)"
proof -
  let ?D = "batch_size a * int w"
  have D: "0 < ?D" using assms by simp
  then have Dr: "0 < real_of_int ?D" by (simp only: of_int_0_less_iff)
  have "(j < iterations a w) = (int j < \<lceil>real_of_int (num_samples a) / real_of_int ?D\<rceil>)"
    unfolding iterations_def by linarith
  also have "\<dots> = (real_of_int (int j) < real_of_int (num_samples a) / real_of_int ?D)"
    by (rule less_ceiling_iff)
  also have "\<dots> = (real_of_int (int j) * real_of_int ?D < real_of_int (num_samples a))"
    using Dr by (rule pos_less_divide_eq)
  also have "\<dots> = (int j * ?D < num_samples a)"
    by (metis of_int_less_iff of_int_mult)
  also have "\<dots> = (int (j * w) * batch_size a < num_samples a)"
    by (simp add: mult.commute mult.left_commute)
  finally show ?thesis by simp
qed

lemma sampling_loop_result:
  assumes "1 \<le> batch_size a" "1 \<le> world_size e"
  shows "sampling_loop e a init_state =
           Some ((loop_body e a ^^ iterations a (world_size e)) init_state)"
proof (rule sampling_loop_iterate)
  fix j assume "j < iterations a (world_size e)"
  then show "more_samples a ((loop_body e a ^^ j) init_state)"
    using more_samples_iterate [OF assms, of j]
    by (simp add: more_samples_def iterate_length init_state_def)
next
  show "\<not> more_samples a ((loop_body e a ^^ iterations a (world_size e)) init_state)"
    using more_samples_iterate [OF assms, of "iterations a (world_size e)"]
    by (simp add: more_samples_def iterate_length init_state_def)
qed

lemma events_loop_body:
  assumes "tick st = t" "length (all_images st) = t * world_size e"
  shows "events (loop_body e a st) = events st @ iteration_events e a t"
  using assms
  by (simp add: loop_body_def Let_def iteration_events_def length_gathered_samples
      distrib_right)

lemma iterate_events:
  "events ((loop_body e a ^^ k) init_state) = concat (map (iteration_events e a) [0..<k])"
proof (induction k)
  case 0
  show ?case by (simp add: init_state_def)
next
  case (Suc k)
  have t: "tick ((loop_body e a ^^ k) init_state) = k"
    by (simp add: iterate_tick init_state_def)
  have l: "length (all_images ((loop_body e a ^^ k) init_state)) = k * world_size e"
    by (simp add: iterate_length init_state_def)
  show ?case
    by (simp add: events_loop_body [OF t l] Suc.IH)
qed

lemma all_gathers_append: "all_gathers (xs @ ys) = all_gathers xs + all_gathers ys"
  by (simp add: all_gathers_def)

lemma all_gathers_iteration:
  "all_gathers (iteration_events e a t) = (if class_cond a then 2 else 1)"
  by (simp add: all_gathers_def iteration_events_def)

lemma all_gathers_iterations:
  "all_gathers (concat (map (iteration_events e a) [0..<k])) =
     k * (if class_cond a then 2 else 1)"
proof (induction k)
  case 0
  show ?case by (simp add: all_gathers_def)
next
  case (Suc k)
  show ?case
    by (simp only: upt_Suc_append [OF le0] map_append concat_append all_gathers_append
        Suc.IH all_gathers_iteration list.map concat.simps append_Nil2 mult_Suc)
qed

lemma barriers_iterations:
  "barriers (concat (map (iteration_events e a) [0..<k])) = 0"
  by (induction k) (simp_all add: barriers_def iteration_events_def)

lemma sample_calls_iterations:
  "sample_calls (concat (map (iteration_events e a) [0..<k])) =
     map (\<lambda>t. Sample_call (sample_fn a) (shape_arg a) (clip_denoised a)
                (model_kwargs e a (rank e) t) (guidance_kwargs a)) [0..<k]"
  by (induction k) (simp_all add: sample_calls_def iteration_events_def)

lemma saves_iterations:
  "saves (concat (map (iteration_events e a) [0..<k])) = []"
  by (induction k) (simp_all add: saves_def iteration_events_def)

subsection \<open>The loop condition\<close>

text \<open>
  Claim C1. The loop is an accumulate-until-enough loop: its body runs again exactly when
  the number of arrays in \<open>all_images\<close> times \<open>batch_size\<close> is below \<open>num_samples\<close>, and
  a state in which the loop ends has \<open>len(all_images) * batch_size \<ge> num_samples\<close>.
\<close>

theorem sampling_loop_accumulates_until_enough:
  "sampling_loop e a st =
     (if int (length (all_images st)) * batch_size a < num_samples a
      then sampling_loop e a (loop_body e a st) else Some st) \<and>
   (sampling_loop e a st = Some st' \<longrightarrow>
      num_samples a \<le> int (length (all_images st')) * batch_size a)"
proof
  show "sampling_loop e a st =
     (if int (length (all_images st)) * batch_size a < num_samples a
      then sampling_loop e a (loop_body e a st) else Some st)"
    by (subst sampling_loop.simps) (simp add: more_samples_def)
next
  show "sampling_loop e a st = Some st' \<longrightarrow>
      num_samples a \<le> int (length (all_images st')) * batch_size a"
    using sampling_loop_stops [of e a st st'] by (auto simp add: more_samples_def)
qed

theorem sampling_loop_accumulates_until_enough_witness:
  "sampling_loop env0 args0 init_state = Some ((loop_body env0 args0 ^^ 2) init_state) \<and>
   length (all_images ((loop_body env0 args0 ^^ 2) init_state)) = 4 \<and>
   num_samples args0
     \<le> int (length (all_images ((loop_body env0 args0 ^^ 2) init_state))) * batch_size args0"
proof -
  have run: "sampling_loop env0 args0 init_state = Some ((loop_body env0 args0 ^^ 2) init_state)"
    by code_simp
  have len: "length (all_images ((loop_body env0 args0 ^^ 2) init_state)) = 4"
    by code_simp
  from run len show ?thesis
    using sampling_loop_accumulates_until_enough
      [of env0 args0 init_state "(loop_body env0 args0 ^^ 2) init_state"]
    by blast
qed

subsection \<open>Termination\<close>

text \<open>
  Claim C5. For \<open>num_samples \<ge> 0\<close>, \<open>batch_size \<ge> 1\<close> and a world size of at least 1 the
  loop ends, after exactly \<open>ceil(num_samples / (batch_size * world_size))\<close> iterations,
  each of which makes \<open>all_images\<close> longer by \<open>world_size\<close> arrays.
\<close>

theorem sampling_loop_terminates:
  assumes "0 \<le> num_samples a" and "1 \<le> batch_size a" and "1 \<le> world_size e"
  shows "\<exists>k st'. sampling_loop e a init_state = Some st' \<and>
           int k = \<lceil>real_of_int (num_samples a) /
                     real_of_int (batch_size a * int (world_size e))\<rceil> \<and>
           st' = (loop_body e a ^^ k) init_state \<and> tick st' = k \<and>
           (\<forall>j. length (all_images ((loop_body e a ^^ j) init_state)) = j * world_size e)"
proof -
  let ?k = "iterations a (world_size e)"
  have "0 \<le> real_of_int (num_samples a) / real_of_int (batch_size a * int (world_size e))"
    using assms by simp
  then have k: "int ?k = \<lceil>real_of_int (num_samples a) /
                     real_of_int (batch_size a * int (world_size e))\<rceil>"
    unfolding iterations_def by simp
  have "sampling_loop e a init_state = Some ((loop_body e a ^^ ?k) init_state)"
    using assms(2,3) by (rule sampling_loop_result)
  moreover have "tick ((loop_body e a ^^ ?k) init_state) = ?k"
    by (simp add: iterate_tick init_state_def)
  moreover have "\<forall>j. length (all_images ((loop_body e a ^^ j) init_state)) = j * world_size e"
    by (simp add: iterate_length init_state_def)
  ultimately show ?thesis using k by blast
qed

theorem sampling_loop_terminates_witness:
  "0 \<le> num_samples args0 \<and> 1 \<le> batch_size args0 \<and> 1 \<le> world_size env0 \<and>
   \<lceil>real_of_int (num_samples args0) /
      real_of_int (batch_size args0 * int (world_size env0))\<rceil> = 2 \<and>
   map_option tick (sampling_loop env0 args0 init_state) = Some 2"
proof -
  have h: "0 \<le> num_samples args0" "1 \<le> batch_size args0" "1 \<le> world_size env0"
    by (simp_all add: args0_def env0_def)
  have c: "\<lceil>real_of_int (num_samples args0) /
      real_of_int (batch_size args0 * int (world_size env0))\<rceil> = 2"
    by (simp add: args0_def env0_def)
  from sampling_loop_terminates [OF h] obtain k st' where
    "sampling_loop env0 args0 init_state = Some st'"
    "int k = \<lceil>real_of_int (num_samples args0) /
      real_of_int (batch_size args0 * int (world_size env0))\<rceil>"
    "tick st' = k"
    by blast
  with c have "map_option tick (sampling_loop env0 args0 init_state) = Some 2"
    by simp
  with h c show ?thesis by blast
qed

section \<open>Tensors, arrays and the code after the loop\<close>

subsection \<open>Shapes and elements\<close>

lemma index_bound:
  fixes i k :: nat
  assumes "i < n" "k < c"
  shows "i * c + k < n * c"
proof -
  have "i * c + k < i * c + c" using assms(2) by simp
  also have "\<dots> = Suc i * c" by simp
  also have "\<dots> \<le> n * c" using assms(1) by (intro mult_le_mono1) simp
  finally show ?thesis .
qed

lemma set_elems_permute:
  assumes "well_formed t"
  shows "set (elems (permute_0231 t)) \<subseteq> set (elems t)"
proof
  fix p assume "p \<in> set (elems (permute_0231 t))"
  then obtain i y x k where
    b: "i < dim0 t" "y < dim2 t" "x < dim3 t" "k < dim1 t" and
    p: "p = elems t ! (((i * dim1 t + k) * dim2 t + y) * dim3 t + x)"
    by (auto simp add: permute_0231_def)
  have "((i * dim1 t + k) * dim2 t + y) * dim3 t + x < dim0 t * dim1 t * dim2 t * dim3 t"
    by (intro index_bound b)
  then have "((i * dim1 t + k) * dim2 t + y) * dim3 t + x < length (elems t)"
    using assms by (simp add: well_formed_def numel_def)
  with p show "p \<in> set (elems t)" by simp
qed

lemma length_concat_const:
  "(\<And>x. x \<in> set xs \<Longrightarrow> length (f x) = m) \<Longrightarrow> length (concat (map f xs)) = length xs * m"
  by (induction xs) simp_all

lemma length_elems_permute:
  "length (elems (permute_0231 t)) = dim0 t * dim2 t * dim3 t * dim1 t"
  by (simp add: permute_0231_def length_concat_const)

lemma dims_permute:
  "dim0 (permute_0231 t) = dim0 t" "dim1 (permute_0231 t) = dim2 t"
  "dim2 (permute_0231 t) = dim3 t" "dim3 (permute_0231 t) = dim1 t"
  by (simp_all add: permute_0231_def)

lemma dims_map_tensor:
  "dim0 (map_tensor f t) = dim0 t" "dim1 (map_tensor f t) = dim1 t"
  "dim2 (map_tensor f t) = dim2 t" "dim3 (map_tensor f t) = dim3 t"
  "elems (map_tensor f t) = map f (elems t)"
  by (simp_all add: map_tensor_def)

lemma well_formed_map_tensor: "well_formed (map_tensor f t) = well_formed t"
  by (simp add: well_formed_def numel_def dims_map_tensor)

lemma well_formed_permute: "well_formed (permute_0231 t)"
  by (simp add: well_formed_def numel_def dims_permute length_elems_permute)

lemma sample_shape:
  assumes "sample_loop_contract e a"
  shows "dim0 (sample e a r t) = nat (batch_size a)"
    and "dim1 (sample e a r t) = nat (image_size a)"
    and "dim2 (sample e a r t) = nat (image_size a)"
    and "dim3 (sample e a r t) = 3"
  using assms
  by (simp_all add: sample_def dims_permute dims_map_tensor sample_loop_contract_def)

lemma well_formed_sample: "well_formed (sample e a r t)"
  by (simp add: sample_def well_formed_permute)

lemma set_elems_sample:
  assumes "sample_loop_contract e a"
  shows "set (elems (sample e a r t)) \<subseteq> to_pixel e ` set (elems (raw_sample e a r t))"
proof -
  have "well_formed (map_tensor (to_pixel e) (raw_sample e a r t))"
    using assms by (simp add: well_formed_map_tensor sample_loop_contract_def)
  from set_elems_permute [OF this] show ?thesis
    by (simp add: sample_def dims_map_tensor)
qed

lemma sum_list_const:
  "(\<And>x. x \<in> set xs \<Longrightarrow> f x = (m::nat)) \<Longrightarrow> sum_list (map f xs) = length xs * m"
  by (induction xs) simp_all

lemma np_concatenate_same_shape:
  assumes "arrs \<noteq> []"
    and "\<And>b. b \<in> set arrs \<Longrightarrow> dim0 b = n \<and> dim1 b = d1 \<and> dim2 b = d2 \<and> dim3 b = d3"
  shows "np_concatenate arrs =
           Inr \<lparr>dim0 = length arrs * n, dim1 = d1, dim2 = d2, dim3 = d3,
                elems = concat (map elems arrs)\<rparr>"
proof -
  obtain b rest where arrs: "arrs = b # rest"
    using assms(1) by (cases arrs) auto
  have "b \<in> set arrs" by (simp add: arrs)
  from assms(2) [OF this] have d: "dim1 b = d1" "dim2 b = d2" "dim3 b = d3"
    by blast+
  have all: "list_all (\<lambda>c. dim1 c = dim1 b \<and> dim2 c = dim2 b \<and> dim3 c = dim3 b) rest"
    unfolding list_all_iff
  proof
    fix c assume "c \<in> set rest"
    then have "c \<in> set arrs" by (simp add: arrs)
    from assms(2) [OF this] d
    show "dim1 c = dim1 b \<and> dim2 c = dim2 b \<and> dim3 c = dim3 b" by simp
  qed
  have s: "sum_list (map dim0 arrs) = length arrs * n"
  proof (rule sum_list_const)
    fix c assume "c \<in> set arrs"
    from assms(2) [OF this] show "dim0 c = n" by blast
  qed
  have "np_concatenate arrs =
           Inr \<lparr>dim0 = sum_list (map dim0 arrs), dim1 = dim1 b, dim2 = dim2 b, dim3 = dim3 b,
                elems = concat (map elems arrs)\<rparr>"
    unfolding np_concatenate_def arrs using all by simp
  then show ?thesis by (simp only: s d)
qed

lemma slice_stop_within:
  assumes "0 \<le> n" "n \<le> int len"
  shows "slice_stop len n = nat n"
  using assms by (simp add: slice_stop_def)

lemma take_rows_final:
  assumes "0 \<le> n" "n \<le> int d0"
  shows "take_rows n \<lparr>dim0 = d0, dim1 = d1, dim2 = d2, dim3 = d3, elems = xs\<rparr> =
           \<lparr>dim0 = nat n, dim1 = d1, dim2 = d2, dim3 = d3,
            elems = take (nat n * (d1 * d2 * d3)) xs\<rparr>"
  by (simp add: take_rows_def Let_def slice_stop_within [OF assms])

lemma np_concatenate1_nonempty: "arrs \<noteq> [] \<Longrightarrow> np_concatenate1 arrs = Inr (concat arrs)"
  by (cases arrs) (simp_all add: np_concatenate1_def)

subsection \<open>The state in which the loop ends\<close>

lemma set_final_images:
  "set (all_images ((loop_body e a ^^ k) init_state)) \<subseteq> {sample e a r t | r t. True}"
  by (auto simp add: iterate_images init_state_def gathered_samples_def)

lemma final_images_shape:
  assumes "sample_loop_contract e a"
    and "b \<in> set (all_images ((loop_body e a ^^ k) init_state))"
  shows "dim0 b = nat (batch_size a) \<and> dim1 b = nat (image_size a) \<and>
         dim2 b = nat (image_size a) \<and> dim3 b = 3 \<and> well_formed b"
proof -
  from assms(2) set_final_images obtain r t where "b = sample e a r t" by blast
  then show ?thesis
    using sample_shape [OF assms(1)] well_formed_sample by simp
qed

lemma final_pixels:
  assumes "sample_loop_contract e a"
    and "img \<in> set (all_images ((loop_body e a ^^ k) init_state))"
    and "p \<in> set (elems img)"
  shows "\<exists>w t x. x \<in> set (elems (raw_sample e a w t)) \<and> p = to_pixel e x"
proof -
  from assms(2) set_final_images obtain w t where "img = sample e a w t" by blast
  with assms(3) set_elems_sample [OF assms(1), of w t]
  have "p \<in> to_pixel e ` set (elems (raw_sample e a w t))" by blast
  then show ?thesis by blast
qed

lemma iterations_pos:
  assumes "1 \<le> num_samples a" "1 \<le> batch_size a" "1 \<le> w"
  shows "0 < iterations a w"
  using more_samples_iterate [OF assms(2,3), of 0] assms(1) by simp

lemma iterations_enough:
  assumes "1 \<le> batch_size a" "1 \<le> w"
  shows "num_samples a \<le> int (iterations a w * w) * batch_size a"
  using more_samples_iterate [OF assms, of "iterations a w"] by simp

lemma final_images_length:
  "length (all_images ((loop_body e a ^^ k) init_state)) = k * world_size e"
  by (simp add: iterate_length init_state_def)

lemma final_labels:
  "all_labels ((loop_body e a ^^ k) init_state) =
     (if class_cond a then concat (map (gathered_labels e a) [0..<k]) else [])"
  by (simp add: iterate_labels init_state_def)

lemma final_labels_length:
  "class_cond a \<Longrightarrow>
   length (all_labels ((loop_body e a ^^ k) init_state)) = k * world_size e"
  by (simp add: final_labels length_concat_const length_gathered_labels)

lemma concatenate_final:
  assumes "sample_loop_contract e a" and "0 < k * world_size e"
  shows "np_concatenate (all_images ((loop_body e a ^^ k) init_state)) =
           Inr \<lparr>dim0 = k * world_size e * nat (batch_size a), dim1 = nat (image_size a),
                dim2 = nat (image_size a), dim3 = 3,
                elems = concat (map elems (all_images ((loop_body e a ^^ k) init_state)))\<rparr>"
proof -
  let ?imgs = "all_images ((loop_body e a ^^ k) init_state)"
  have ne: "?imgs \<noteq> []"
    using assms(2) final_images_length [where e = e and a = a and k = k] by auto
  have "np_concatenate ?imgs =
           Inr \<lparr>dim0 = length ?imgs * nat (batch_size a), dim1 = nat (image_size a),
                dim2 = nat (image_size a), dim3 = 3, elems = concat (map elems ?imgs)\<rparr>"
  proof (rule np_concatenate_same_shape [OF ne])
    fix b assume "b \<in> set ?imgs"
    from final_images_shape [OF assms(1) this]
    show "dim0 b = nat (batch_size a) \<and> dim1 b = nat (image_size a) \<and>
          dim2 b = nat (image_size a) \<and> dim3 b = 3" by blast
  qed
  then show ?thesis by (simp only: final_images_length)
qed

lemma length_final_elems:
  assumes "sample_loop_contract e a"
  shows "length (concat (map elems (all_images ((loop_body e a ^^ k) init_state)))) =
           k * world_size e * (nat (batch_size a) * (nat (image_size a) * nat (image_size a) * 3))"
proof -
  let ?imgs = "all_images ((loop_body e a ^^ k) init_state)"
  have "length (concat (map elems ?imgs)) =
          length ?imgs * (nat (batch_size a) * (nat (image_size a) * nat (image_size a) * 3))"
  proof (rule length_concat_const)
    fix b assume "b \<in> set ?imgs"
    from final_images_shape [OF assms this]
    show "length (elems b) =
            nat (batch_size a) * (nat (image_size a) * nat (image_size a) * 3)"
      by (simp add: well_formed_def numel_def mult.assoc)
  qed
  then show ?thesis by (simp only: final_images_length)
qed

lemma length_final_labels_concat:
  assumes "randint_contract e a" and "class_cond a"
  shows "length (concat (all_labels ((loop_body e a ^^ k) init_state))) =
           k * world_size e * nat (batch_size a)"
proof -
  let ?labs = "all_labels ((loop_body e a ^^ k) init_state)"
  have "length (concat (map (\<lambda>l. l) ?labs)) = length ?labs * nat (batch_size a)"
  proof (rule length_concat_const)
    fix l assume "l \<in> set ?labs"
    then obtain r t where "l = classes e a r t"
      using assms(2) by (auto simp add: final_labels gathered_labels_def)
    then show "length l = nat (batch_size a)"
      using assms(1) by (simp add: randint_contract_def)
  qed
  then show ?thesis using assms(2) by (simp add: final_labels_length)
qed

lemma gathered_samples_fn:
  "gathered_samples e a =
     (\<lambda>t. map (\<lambda>w. permute_0231 (map_tensor (to_pixel e)
             (sample_loop e (sample_fn a) (shape_arg a) (clip_denoised a)
                (model_kwargs e a w t) (guidance_kwargs a) w t))) [0..<world_size e])"
  by (rule ext) (simp add: gathered_samples_def sample_def raw_sample_def)

subsection \<open>The run\<close>

lemma after_loop_final:
  assumes "1 \<le> num_samples a" and "1 \<le> batch_size a" and "1 \<le> world_size e"
    and "sample_loop_contract e a"
    and "st' = (loop_body e a ^^ iterations a (world_size e)) init_state"
  shows "after_loop e a st' =
           save_and_barrier e a st'
             \<lparr>dim0 = nat (num_samples a), dim1 = nat (image_size a),
              dim2 = nat (image_size a), dim3 = 3,
              elems = take (nat (num_samples a) * (nat (image_size a) * nat (image_size a) * 3))
                        (concat (map elems (all_images st')))\<rparr>
             (if class_cond a then Some (take_labels (num_samples a) (concat (all_labels st')))
              else None)"
proof -
  let ?k = "iterations a (world_size e)"
  have k: "0 < ?k" using assms(1,2,3) by (rule iterations_pos)
  then have pos: "0 < ?k * world_size e" using assms(3) by simp
  have enough: "num_samples a \<le> int (?k * world_size e * nat (batch_size a))"
    using iterations_enough [OF assms(2,3)] assms(2) by simp
  have c: "np_concatenate (all_images st') =
           Inr \<lparr>dim0 = ?k * world_size e * nat (batch_size a), dim1 = nat (image_size a),
                dim2 = nat (image_size a), dim3 = 3,
                elems = concat (map elems (all_images st'))\<rparr>"
    unfolding assms(5) using assms(4) pos by (rule concatenate_final)
  have n0: "0 \<le> num_samples a" using assms(1) by simp
  have l: "class_cond a \<Longrightarrow> np_concatenate1 (all_labels st') = Inr (concat (all_labels st'))"
  proof (rule np_concatenate1_nonempty)
    assume "class_cond a"
    then have "length (all_labels st') = ?k * world_size e"
      unfolding assms(5) by (rule final_labels_length)
    with pos show "all_labels st' \<noteq> []" by auto
  qed
  show ?thesis
    by (simp add: after_loop_def c take_rows_final [OF n0 enough] l)
qed

lemma main_eq:
  assumes "1 \<le> batch_size a" and "1 \<le> world_size e"
  shows "main e a =
           Some (after_loop e a ((loop_body e a ^^ iterations a (world_size e)) init_state))"
  by (simp add: main_def sampling_loop_result [OF assms])

lemma events_save_and_barrier:
  "all_gathers (run_events (save_and_barrier e a st arr lab)) = all_gathers (events st)"
  "barriers (run_events (save_and_barrier e a st arr lab)) = Suc (barriers (events st))"
  "sample_calls (run_events (save_and_barrier e a st arr lab)) = sample_calls (events st)"
  "saves (run_events (save_and_barrier e a st arr lab)) =
     saves (events st) @
     (if rank e = 0 then [Save_npz (out_path e arr) arr (if class_cond a then lab else None)]
      else [])"
  "run_result (save_and_barrier e a st arr lab) = Inr (arr, lab)"
  by (simp_all add: save_and_barrier_def all_gathers_def barriers_def sample_calls_def
      saves_def Let_def)

lemma events_after_loop:
  "all_gathers (run_events (after_loop e a st)) = all_gathers (events st)"
  "sample_calls (run_events (after_loop e a st)) = sample_calls (events st)"
  "barriers (run_events (after_loop e a st)) =
     barriers (events st) + (if isl (run_result (after_loop e a st)) then 0 else 1)"
  by (simp_all add: after_loop_def events_save_and_barrier Let_def split: sum.splits)

lemma out_path_form:
  "out_path e arr =
     get_dir e @ (if get_dir e = [] \<or> last (get_dir e) = CHR ''/'' then [] else ''/'') @
     ''samples_'' @ shape_str arr @ ''.npz''"
  by (simp add: out_path_def os_path_join_def)

lemma after_loop_succeeds:
  assumes "1 \<le> num_samples a" and "1 \<le> batch_size a" and "1 \<le> world_size e"
    and "sample_loop_contract e a"
  shows "\<not> isl (run_result
           (after_loop e a ((loop_body e a ^^ iterations a (world_size e)) init_state)))"
  by (simp add: after_loop_final [OF assms refl] events_save_and_barrier)

lemma run_final:
  assumes "1 \<le> num_samples a" and "1 \<le> batch_size a" and "1 \<le> world_size e"
    and "sample_loop_contract e a"
    and "st' = (loop_body e a ^^ iterations a (world_size e)) init_state"
    and "arr0 = \<lparr>dim0 = iterations a (world_size e) * world_size e * nat (batch_size a),
                  dim1 = nat (image_size a), dim2 = nat (image_size a), dim3 = 3,
                  elems = concat (map elems (all_images st'))\<rparr>"
    and "lab = (if class_cond a
                then Some (take_labels (num_samples a) (concat (all_labels st'))) else None)"
  shows "sampling_loop e a init_state = Some st'"
    and "np_concatenate (all_images st') = Inr arr0"
    and "take_rows (num_samples a) arr0 =
           \<lparr>dim0 = nat (num_samples a), dim1 = nat (image_size a),
            dim2 = nat (image_size a), dim3 = 3,
            elems = take (nat (num_samples a) * (nat (image_size a) * nat (image_size a) * 3))
                      (concat (map elems (all_images st')))\<rparr>"
    and "main e a = Some (save_and_barrier e a st' (take_rows (num_samples a) arr0) lab)"
    and "saves (events st') = []"
proof -
  let ?k = "iterations a (world_size e)"
  show "sampling_loop e a init_state = Some st'"
    unfolding assms(5) using assms(2,3) by (rule sampling_loop_result)
  have "0 < ?k" using assms(1,2,3) by (rule iterations_pos)
  then have pos: "0 < ?k * world_size e" using assms(3) by simp
  show "np_concatenate (all_images st') = Inr arr0"
    unfolding assms(5,6) using assms(4) pos by (rule concatenate_final)
  have n0: "0 \<le> num_samples a" using assms(1) by simp
  have enough: "num_samples a \<le> int (?k * world_size e * nat (batch_size a))"
    using iterations_enough [OF assms(2,3)] assms(2) by simp
  show t: "take_rows (num_samples a) arr0 =
           \<lparr>dim0 = nat (num_samples a), dim1 = nat (image_size a),
            dim2 = nat (image_size a), dim3 = 3,
            elems = take (nat (num_samples a) * (nat (image_size a) * nat (image_size a) * 3))
                      (concat (map elems (all_images st')))\<rparr>"
    unfolding assms(6) using n0 enough by (rule take_rows_final)
  show "main e a = Some (save_and_barrier e a st' (take_rows (num_samples a) arr0) lab)"
    by (simp only: main_eq [OF assms(2,3)] after_loop_final [OF assms(1-5)] t assms(5) [symmetric]
        assms(7))
  show "saves (events st') = []"
    unfolding assms(5) by (simp only: iterate_events saves_iterations)
qed

lemma run_sample_calls:
  assumes "1 \<le> batch_size a" and "1 \<le> world_size e"
  shows "\<exists>r. main e a = Some r \<and>
           sample_calls (run_events r) =
             map (\<lambda>t. Sample_call (if use_ddim a then Ddim_sample_loop else P_sample_loop)
                        (batch_size a, 3, image_size a, image_size a) (clip_denoised a)
                        (model_kwargs e a (rank e) t) (guidance_kwargs a))
               [0..<iterations a (world_size e)]"
proof -
  let ?st = "(loop_body e a ^^ iterations a (world_size e)) init_state"
  have fn: "sample_fn a = (if use_ddim a then Ddim_sample_loop else P_sample_loop)"
    by (simp add: sample_fn_def)
  have "main e a = Some (after_loop e a ?st)"
    using assms by (rule main_eq)
  moreover have "sample_calls (run_events (after_loop e a ?st)) =
             map (\<lambda>t. Sample_call (if use_ddim a then Ddim_sample_loop else P_sample_loop)
                        (batch_size a, 3, image_size a, image_size a) (clip_denoised a)
                        (model_kwargs e a (rank e) t) (guidance_kwargs a))
               [0..<iterations a (world_size e)]"
    by (simp only: events_after_loop iterate_events sample_calls_iterations fn shape_arg_def)
  ultimately show ?thesis by blast
qed

lemma sample_call_in_sample_calls:
  "Sample_call f sh c mk gk \<in> set evs \<Longrightarrow> Sample_call f sh c mk gk \<in> set (sample_calls evs)"
  by (simp add: sample_calls_def)

subsection \<open>Bytes\<close>

lemma unat_byte: "unat (p :: 8 word) \<le> 255"
  using unsigned_less [of p, where 'a = nat] by simp

lemma clamp_range: "clamp 0 255 y = Fin v \<Longrightarrow> 0 \<le> v \<and> v \<le> 255"
  by (cases y) (auto simp add: clamp_def)

lemma to_uint8_exact:
  assumes "0 \<le> v" and "v \<le> 255"
  shows "uint (to_uint8 e (Fin v)) = \<lfloor>v\<rfloor>"
proof -
  have "0 \<le> \<lfloor>v\<rfloor>" using assms(1) by simp
  moreover have "\<lfloor>v\<rfloor> \<le> 255" using assms(2) by (simp add: floor_le_iff)
  ultimately have "\<lfloor>v\<rfloor> mod 2 ^ 8 = \<lfloor>v\<rfloor>" by simp
  then show ?thesis
    using assms(1) by (simp add: to_uint8_def trunc_def uint_word_of_int)
qed

subsection \<open>The small run\<close>

lemma contract_env0: "sample_loop_contract env0 args0"
  by (simp add: sample_loop_contract_def raw_sample_def env0_def args0_def shape_arg_def
      well_formed_def numel_def)

lemma randint_env0: "randint_contract env0 args0"
  by (simp add: randint_contract_def classes_def env0_def args0_def)

lemma iterations_env0: "iterations args0 (world_size env0) = 2"
  by (simp add: iterations_def args0_def env0_def)

section \<open>Properties of a run\<close>

subsection \<open>Collective calls\<close>

text \<open>
  The sentence that distributed collection is a single \<open>all_gather\<close> call over the whole
  run does not hold: the small run makes four such calls, and two without labels.
\<close>

theorem all_gather_every_iteration_counterexample:
  "map_option (all_gathers \<circ> run_events) (main env0 args0) = Some 4 \<and>
   map_option (all_gathers \<circ> run_events) (main env0 (args0\<lparr>class_cond := False\<rparr>)) = Some 2"
  by code_simp

text \<open>
  Claim C2, as the code has it. \<open>dist.all_gather\<close> is called once in every iteration of
  the loop for the samples and, when \<open>class_cond\<close> is set, once more for the labels: with
  \<open>batch_size \<ge> 1\<close> and a world size of at least 1 a run makes
  \<open>ceil(num_samples / (batch_size * world_size))\<close> such calls, twice as many with
  \<open>class_cond\<close>. \<open>dist.barrier\<close> is called exactly once, after the loop, in a run that
  raises no exception, and not at all in a run that raises one; a run with
  \<open>num_samples \<ge> 1\<close> whose sampling routine returns the requested shape raises none.
\<close>

theorem all_gather_every_iteration:
  assumes "1 \<le> batch_size a" and "1 \<le> world_size e"
  shows "\<exists>r. main e a = Some r \<and>
           all_gathers (run_events r) =
             iterations a (world_size e) * (if class_cond a then 2 else 1) \<and>
           barriers (run_events r) = (if isl (run_result r) then 0 else 1) \<and>
           (1 \<le> num_samples a \<and> sample_loop_contract e a \<longrightarrow> \<not> isl (run_result r))"
proof -
  let ?st = "(loop_body e a ^^ iterations a (world_size e)) init_state"
  have "main e a = Some (after_loop e a ?st)"
    using assms by (rule main_eq)
  moreover have "all_gathers (run_events (after_loop e a ?st)) =
      iterations a (world_size e) * (if class_cond a then 2 else 1)"
    by (simp only: events_after_loop iterate_events all_gathers_iterations)
  moreover have "barriers (run_events (after_loop e a ?st)) =
      (if isl (run_result (after_loop e a ?st)) then 0 else 1)"
    by (simp only: events_after_loop iterate_events barriers_iterations add_0)
  moreover have "1 \<le> num_samples a \<and> sample_loop_contract e a \<longrightarrow>
      \<not> isl (run_result (after_loop e a ?st))"
    using after_loop_succeeds [OF _ assms] by blast
  ultimately show ?thesis by blast
qed

theorem all_gather_every_iteration_witness:
  "1 \<le> batch_size args0 \<and> 1 \<le> world_size env0 \<and> 1 \<le> num_samples args0 \<and>
   sample_loop_contract env0 args0 \<and>
   (\<exists>r. main env0 args0 = Some r \<and> all_gathers (run_events r) = 4 \<and>
        barriers (run_events r) = 1)"
proof -
  have h: "1 \<le> batch_size args0" "1 \<le> world_size env0"
    by (simp_all add: args0_def env0_def)
  have n: "1 \<le> num_samples args0" and c: "class_cond args0"
    by (simp_all add: args0_def)
  from all_gather_every_iteration [OF h] obtain r where
    "main env0 args0 = Some r"
    "all_gathers (run_events r) =
       iterations args0 (world_size env0) * (if class_cond args0 then 2 else 1)"
    "barriers (run_events r) = (if isl (run_result r) then 0 else 1)"
    "1 \<le> num_samples args0 \<and> sample_loop_contract env0 args0 \<longrightarrow> \<not> isl (run_result r)"
    by blast
  with n c contract_env0 iterations_env0
  have "main env0 args0 = Some r \<and> all_gathers (run_events r) = 4 \<and>
        barriers (run_events r) = 1"
    by simp
  with h n contract_env0 show ?thesis by blast
qed

text \<open>
  Claim C7. One execution of the loop body appends to \<open>all_images\<close> exactly \<open>world_size\<close>
  arrays, the sample of every worker in the order of the ranks, each of shape
  \<open>(batch_size, image_size, image_size, 3)\<close> when the sampling routine returns the
  requested shape; with \<open>class_cond\<close> it appends \<open>world_size\<close> label arrays to
  \<open>all_labels\<close>, and otherwise leaves \<open>all_labels\<close> as it is.
\<close>

theorem all_gather_collects_every_worker:
  "\<exists>new. all_images (loop_body e a st) = all_images st @ new \<and>
          length new = world_size e \<and>
          new = map (\<lambda>w. sample e a w (tick st)) [0..<world_size e] \<and>
          (sample_loop_contract e a \<longrightarrow>
             (\<forall>x \<in> set new. dim0 x = nat (batch_size a) \<and> dim1 x = nat (image_size a) \<and>
                dim2 x = nat (image_size a) \<and> dim3 x = 3)) \<and>
          (if class_cond a
           then \<exists>labels. all_labels (loop_body e a st) = all_labels st @ labels \<and>
                  length labels = world_size e \<and>
                  labels = map (\<lambda>w. classes e a w (tick st)) [0..<world_size e]
           else all_labels (loop_body e a st) = all_labels st)"
proof -
  let ?new = "map (\<lambda>w. sample e a w (tick st)) [0..<world_size e]"
  have "all_images (loop_body e a st) = all_images st @ ?new"
    by (simp add: loop_body_fields gathered_samples_def)
  moreover have "length ?new = world_size e" by simp
  moreover have "sample_loop_contract e a \<longrightarrow>
             (\<forall>x \<in> set ?new. dim0 x = nat (batch_size a) \<and> dim1 x = nat (image_size a) \<and>
                dim2 x = nat (image_size a) \<and> dim3 x = 3)"
    by (auto simp add: sample_shape)
  moreover have "if class_cond a
           then \<exists>labels. all_labels (loop_body e a st) = all_labels st @ labels \<and>
                  length labels = world_size e \<and>
                  labels = map (\<lambda>w. classes e a w (tick st)) [0..<world_size e]
           else all_labels (loop_body e a st) = all_labels st"
    by (simp add: loop_body_fields gathered_labels_def)
  ultimately show ?thesis by blast
qed

theorem all_gather_collects_every_worker_witness:
  "sample_loop_contract env0 args0 \<and> class_cond args0 \<and> world_size env0 = 2 \<and>
   all_images (loop_body env0 args0 init_state) =
     [\<lparr>dim0 = 1, dim1 = 1, dim2 = 1, dim3 = 3, elems = [63, 63, 255]\<rparr>,
      \<lparr>dim0 = 1, dim1 = 1, dim2 = 1, dim3 = 3, elems = [63, 63, 255]\<rparr>] \<and>
   all_labels (loop_body env0 args0 init_state) = [[0], [1]] \<and>
   (\<exists>new. all_images (loop_body env0 args0 init_state) = all_images init_state @ new \<and>
          length new = world_size env0 \<and>
          (\<forall>x \<in> set new. dim0 x = 1 \<and> dim1 x = 1 \<and> dim2 x = 1 \<and> dim3 x = 3))"
proof -
  have c: "class_cond args0" and w: "world_size env0 = 2"
    by (simp_all add: args0_def env0_def)
  have i: "all_images (loop_body env0 args0 init_state) =
     [\<lparr>dim0 = 1, dim1 = 1, dim2 = 1, dim3 = 3, elems = [63, 63, 255]\<rparr>,
      \<lparr>dim0 = 1, dim1 = 1, dim2 = 1, dim3 = 3, elems = [63, 63, 255]\<rparr>]"
    by code_simp
  have l: "all_labels (loop_body env0 args0 init_state) = [[0], [1]]"
    by code_simp
  have d: "nat (batch_size args0) = 1" "nat (image_size args0) = 1"
    by (simp_all add: args0_def)
  from all_gather_collects_every_worker [of env0 args0 init_state] contract_env0
  have "\<exists>new. all_images (loop_body env0 args0 init_state) = all_images init_state @ new \<and>
          length new = world_size env0 \<and>
          (\<forall>x \<in> set new. dim0 x = 1 \<and> dim1 x = 1 \<and> dim2 x = 1 \<and> dim3 x = 3)"
    unfolding d by blast
  with contract_env0 c w i l show ?thesis by blast
qed

subsection \<open>What is saved\<close>

text \<open>
  Claim C3. After the loop the arrays in \<open>all_images\<close> are concatenated and cut to
  \<open>num_samples\<close> rows (and so are the labels, when \<open>class_cond\<close> is set); the worker of
  rank 0, and no other, writes them with \<open>np.savez\<close> to the file
  \<open>samples_<shape>.npz\<close> in the logger's directory.
\<close>

theorem results_saved_by_rank_0:
  assumes "1 \<le> num_samples a" and "1 \<le> batch_size a" and "1 \<le> world_size e"
    and "sample_loop_contract e a"
  shows "\<exists>st' arr0 arr lab r.
           sampling_loop e a init_state = Some st' \<and>
           np_concatenate (all_images st') = Inr arr0 \<and>
           arr = take_rows (num_samples a) arr0 \<and>
           lab = (if class_cond a
                  then Some (take_labels (num_samples a) (concat (all_labels st'))) else None) \<and>
           main e a = Some r \<and> run_result r = Inr (arr, lab) \<and>
           saves (run_events r) =
             (if rank e = 0
              then [Save_npz
                      (get_dir e @
                       (if get_dir e = [] \<or> last (get_dir e) = CHR ''/'' then [] else ''/'') @
                       ''samples_'' @ shape_str arr @ ''.npz'') arr lab]
              else [])"
proof -
  define st' where "st' = (loop_body e a ^^ iterations a (world_size e)) init_state"
  define arr0 where "arr0 =
    \<lparr>dim0 = iterations a (world_size e) * world_size e * nat (batch_size a),
     dim1 = nat (image_size a), dim2 = nat (image_size a), dim3 = 3,
     elems = concat (map elems (all_images st'))\<rparr>"
  define lab where "lab = (if class_cond a
      then Some (take_labels (num_samples a) (concat (all_labels st'))) else None)"
  note f = run_final [OF assms st'_def arr0_def lab_def]
  let ?r = "save_and_barrier e a st' (take_rows (num_samples a) arr0) lab"
  have "saves (run_events ?r) =
     (if rank e = 0
      then [Save_npz
              (get_dir e @
               (if get_dir e = [] \<or> last (get_dir e) = CHR ''/'' then [] else ''/'') @
               ''samples_'' @ shape_str (take_rows (num_samples a) arr0) @ ''.npz'')
              (take_rows (num_samples a) arr0) lab]
      else [])"
    by (simp add: events_save_and_barrier f(5) out_path_form lab_def)
  moreover have "run_result ?r = Inr (take_rows (num_samples a) arr0, lab)"
    by (simp add: events_save_and_barrier)
  ultimately show ?thesis
    using f(1,2,4) lab_def by blast
qed

theorem results_saved_by_rank_0_witness:
  "1 \<le> num_samples args0 \<and> 1 \<le> batch_size args0 \<and> 1 \<le> world_size env0 \<and>
   sample_loop_contract env0 args0 \<and> rank env0 = 0 \<and>
   map_option (saves \<circ> run_events) (main env0 args0) =
     Some [Save_npz ''RESULTS/run/samples_3x1x1x3.npz''
             \<lparr>dim0 = 3, dim1 = 1, dim2 = 1, dim3 = 3,
              elems = [63, 63, 255, 63, 63, 255, 63, 63, 255]\<rparr> (Some [0, 1, 0])] \<and>
   (\<exists>st' arr0 lab r.
      sampling_loop env0 args0 init_state = Some st' \<and>
      np_concatenate (all_images st') = Inr arr0 \<and> main env0 args0 = Some r \<and>
      run_result r = Inr (take_rows 3 arr0, lab))"
proof -
  have h: "1 \<le> num_samples args0" "1 \<le> batch_size args0" "1 \<le> world_size env0"
    by (simp_all add: args0_def env0_def)
  have n: "num_samples args0 = 3" by (simp add: args0_def)
  have r0: "rank env0 = 0" by (simp add: env0_def)
  have saved: "map_option (saves \<circ> run_events) (main env0 args0) =
     Some [Save_npz ''RESULTS/run/samples_3x1x1x3.npz''
             \<lparr>dim0 = 3, dim1 = 1, dim2 = 1, dim3 = 3,
              elems = [63, 63, 255, 63, 63, 255, 63, 63, 255]\<rparr> (Some [0, 1, 0])]"
    by code_simp
  from results_saved_by_rank_0 [OF h contract_env0] n
  have "\<exists>st' arr0 lab r.
      sampling_loop env0 args0 init_state = Some st' \<and>
      np_concatenate (all_images st') = Inr arr0 \<and> main env0 args0 = Some r \<and>
      run_result r = Inr (take_rows 3 arr0, lab)"
    by auto
  with h contract_env0 r0 saved show ?thesis by blast
qed

text \<open>
  The saved array does not have \<open>num_samples\<close> rows in every run with \<open>batch_size \<ge> 1\<close>
  and a world size of at least 1: with \<open>num_samples = 0\<close> the loop body never runs,
  \<open>np.concatenate\<close> raises \<open>ValueError\<close> on the empty list, and nothing is saved.
\<close>

theorem saved_array_has_num_samples_rows_counterexample:
  "batch_size (args0\<lparr>num_samples := 0\<rparr>) = 1 \<and> world_size env0 = 2 \<and>
   main env0 (args0\<lparr>num_samples := 0\<rparr>) =
     Some \<lparr>run_events = [], run_result = Inl ValueError\<rparr>"
  by code_simp

text \<open>
  Claim C4, as the code has it. In a run with \<open>num_samples \<ge> 1\<close>, \<open>batch_size \<ge> 1\<close>,
  \<open>image_size \<ge> 0\<close> and a world size of at least 1, in which the sampling routine and
  \<open>th.randint\<close> return what was asked for, the array \<open>arr\<close> is the concatenation of all
  gathered batches cut to its first \<open>num_samples\<close> rows: it has shape
  \<open>(num_samples, image_size, image_size, 3)\<close>, and with \<open>class_cond\<close> the label array
  has exactly \<open>num_samples\<close> entries. It is what the worker of rank 0 saves.
\<close>

theorem saved_array_has_num_samples_rows:
  assumes "1 \<le> num_samples a" and "1 \<le> batch_size a" and "0 \<le> image_size a"
    and "1 \<le> world_size e"
    and "sample_loop_contract e a" and "randint_contract e a"
  shows "\<exists>k arr lab r.
           main e a = Some r \<and> run_result r = Inr (arr, lab) \<and>
           saves (run_events r) = (if rank e = 0 then [Save_npz (out_path e arr) arr lab] else []) \<and>
           int (dim0 arr) = num_samples a \<and> int (dim1 arr) = image_size a \<and>
           int (dim2 arr) = image_size a \<and> dim3 arr = 3 \<and> well_formed arr \<and>
           elems arr =
             take (nat (num_samples a) * (dim1 arr * dim2 arr * dim3 arr))
               (concat (map elems (concat (map (gathered_samples e a) [0..<k])))) \<and>
           (if class_cond a
            then \<exists>l. lab = Some l \<and> int (length l) = num_samples a \<and>
                   l = take (nat (num_samples a))
                         (concat (concat (map (gathered_labels e a) [0..<k])))
            else lab = None)"
proof -
  define k where "k = iterations a (world_size e)"
  define st' where "st' = (loop_body e a ^^ iterations a (world_size e)) init_state"
  define arr0 where "arr0 =
    \<lparr>dim0 = iterations a (world_size e) * world_size e * nat (batch_size a),
     dim1 = nat (image_size a), dim2 = nat (image_size a), dim3 = 3,
     elems = concat (map elems (all_images st'))\<rparr>"
  define lab where "lab = (if class_cond a
      then Some (take_labels (num_samples a) (concat (all_labels st'))) else None)"
  define arr where "arr = take_rows (num_samples a) arr0"
  note f = run_final [OF assms(1,2,4,5) st'_def arr0_def lab_def]
  have imgs: "all_images st' = concat (map (gathered_samples e a) [0..<k])"
    by (simp add: st'_def k_def iterate_images init_state_def)
  have arr_eq: "arr = \<lparr>dim0 = nat (num_samples a), dim1 = nat (image_size a),
            dim2 = nat (image_size a), dim3 = 3,
            elems = take (nat (num_samples a) * (nat (image_size a) * nat (image_size a) * 3))
                      (concat (map elems (all_images st')))\<rparr>"
    unfolding arr_def by (rule f(3))
  have enough: "nat (num_samples a) \<le> k * world_size e * nat (batch_size a)"
    using iterations_enough [OF assms(2,4)] assms(1,2) unfolding k_def
    by (simp add: nat_le_iff)
  let ?m = "nat (image_size a) * nat (image_size a) * 3"
  have len: "length (concat (map elems (all_images st'))) =
      k * world_size e * (nat (batch_size a) * ?m)"
    unfolding st'_def k_def using assms(5) by (rule length_final_elems)
  have "nat (num_samples a) * ?m \<le> k * world_size e * nat (batch_size a) * ?m"
    using enough by (rule mult_le_mono1)
  then have wf: "well_formed arr"
    by (simp add: arr_eq well_formed_def numel_def len mult.assoc)
  have main: "main e a = Some (save_and_barrier e a st' arr lab)"
    unfolding arr_def by (rule f(4))
  have res: "run_result (save_and_barrier e a st' arr lab) = Inr (arr, lab)"
    by (simp add: events_save_and_barrier)
  have sv: "saves (run_events (save_and_barrier e a st' arr lab)) =
      (if rank e = 0 then [Save_npz (out_path e arr) arr lab] else [])"
    by (simp add: events_save_and_barrier f(5) lab_def)
  have dims: "int (dim0 arr) = num_samples a" "int (dim1 arr) = image_size a"
    "int (dim2 arr) = image_size a" "dim3 arr = 3"
    using assms(1,3) by (simp_all add: arr_eq)
  have el: "elems arr =
             take (nat (num_samples a) * (dim1 arr * dim2 arr * dim3 arr))
               (concat (map elems (concat (map (gathered_samples e a) [0..<k]))))"
    by (simp add: arr_eq imgs)
  have labs: "if class_cond a
            then \<exists>l. lab = Some l \<and> int (length l) = num_samples a \<and>
                   l = take (nat (num_samples a))
                         (concat (concat (map (gathered_labels e a) [0..<k])))
            else lab = None"
  proof (cases "class_cond a")
    case True
    have ll: "length (concat (all_labels st')) = k * world_size e * nat (batch_size a)"
      unfolding st'_def k_def using assms(6) True by (rule length_final_labels_concat)
    have n0: "0 \<le> num_samples a" using assms(1) by simp
    have "num_samples a \<le> int (length (concat (all_labels st')))"
      using enough n0 by (simp add: ll nat_le_iff)
    with n0 have "take_labels (num_samples a) (concat (all_labels st')) =
        take (nat (num_samples a)) (concat (all_labels st'))"
      by (simp add: take_labels_def slice_stop_within)
    moreover have "all_labels st' = concat (map (gathered_labels e a) [0..<k])"
      using True by (simp add: st'_def k_def final_labels)
    ultimately show ?thesis
      using True enough n0 ll by (simp add: lab_def)
  next
    case False
    then show ?thesis by (simp add: lab_def)
  qed
  from main res sv dims wf el labs show ?thesis by blast
qed

theorem saved_array_has_num_samples_rows_witness:
  "1 \<le> num_samples args0 \<and> 1 \<le> batch_size args0 \<and> 0 \<le> image_size args0 \<and>
   1 \<le> world_size env0 \<and> sample_loop_contract env0 args0 \<and> randint_contract env0 args0 \<and>
   map_option run_result (main env0 args0) =
     Some (Inr (\<lparr>dim0 = 3, dim1 = 1, dim2 = 1, dim3 = 3,
                 elems = [63, 63, 255, 63, 63, 255, 63, 63, 255]\<rparr>, Some [0, 1, 0])) \<and>
   (\<exists>arr lab r. main env0 args0 = Some r \<and> run_result r = Inr (arr, lab) \<and>
      int (dim0 arr) = 3 \<and> well_formed arr)"
proof -
  have h: "1 \<le> num_samples args0" "1 \<le> batch_size args0" "0 \<le> image_size args0"
    "1 \<le> world_size env0"
    by (simp_all add: args0_def env0_def)
  have n: "num_samples args0 = 3" by (simp add: args0_def)
  have res: "map_option run_result (main env0 args0) =
     Some (Inr (\<lparr>dim0 = 3, dim1 = 1, dim2 = 1, dim3 = 3,
                 elems = [63, 63, 255, 63, 63, 255, 63, 63, 255]\<rparr>, Some [0, 1, 0]))"
    by code_simp
  from saved_array_has_num_samples_rows [OF h contract_env0 randint_env0]
  obtain arr lab r where "main env0 args0 = Some r" "run_result r = Inr (arr, lab)"
    "int (dim0 arr) = num_samples args0" "well_formed arr"
    by blast
  with n have "\<exists>arr lab r. main env0 args0 = Some r \<and> run_result r = Inr (arr, lab) \<and>
      int (dim0 arr) = 3 \<and> well_formed arr"
    by auto
  with h contract_env0 randint_env0 res show ?thesis by blast
qed

text \<open>
  Claim C9. Every element of the arrays in \<open>all_images\<close>, and so of the saved array, is
  a byte between 0 and 255 that comes from an element \<open>x\<close> of a raw sample by
  \<open>((x + 1) * 127.5).clamp(0, 255).to(th.uint8)\<close>. The clamped number lies between 0 and
  255, so the conversion does not wrap around: the byte is its integer part. This holds for
  any floating-point addition and multiplication.
\<close>

theorem pixels_are_clamped_bytes:
  assumes "1 \<le> num_samples a" and "1 \<le> batch_size a" and "1 \<le> world_size e"
    and "sample_loop_contract e a"
  shows "\<exists>st' r arr lab.
           sampling_loop e a init_state = Some st' \<and> main e a = Some r \<and>
           run_result r = Inr (arr, lab) \<and>
           (\<forall>p. p \<in> set (concat (map elems (all_images st'))) \<or> p \<in> set (elems arr) \<longrightarrow>
              unat p \<le> 255 \<and>
              (\<exists>w t x. x \<in> set (elems (raw_sample e a w t)) \<and>
                 p = to_uint8 e (clamp 0 255 (fl_mul e (fl_add e x (Fin 1)) (Fin 127.5))))) \<and>
           (\<forall>y v. clamp 0 255 y = Fin v \<longrightarrow>
              0 \<le> v \<and> v \<le> 255 \<and> uint (to_uint8 e (clamp 0 255 y)) = \<lfloor>v\<rfloor>)"
proof -
  define st' where "st' = (loop_body e a ^^ iterations a (world_size e)) init_state"
  define arr0 where "arr0 =
    \<lparr>dim0 = iterations a (world_size e) * world_size e * nat (batch_size a),
     dim1 = nat (image_size a), dim2 = nat (image_size a), dim3 = 3,
     elems = concat (map elems (all_images st'))\<rparr>"
  define lab where "lab = (if class_cond a
      then Some (take_labels (num_samples a) (concat (all_labels st'))) else None)"
  define arr where "arr = take_rows (num_samples a) arr0"
  note f = run_final [OF assms st'_def arr0_def lab_def]
  have res: "run_result (save_and_barrier e a st' arr lab) = Inr (arr, lab)"
    by (simp add: events_save_and_barrier)
  have sub: "set (elems arr) \<subseteq> set (concat (map elems (all_images st')))"
    unfolding arr_def f(3) tensor4.simps by (rule set_take_subset)
  have px: "\<forall>p. p \<in> set (concat (map elems (all_images st'))) \<or> p \<in> set (elems arr) \<longrightarrow>
              unat p \<le> 255 \<and>
              (\<exists>w t x. x \<in> set (elems (raw_sample e a w t)) \<and>
                 p = to_uint8 e (clamp 0 255 (fl_mul e (fl_add e x (Fin 1)) (Fin 127.5))))"
  proof (intro allI impI)
    fix p
    assume "p \<in> set (concat (map elems (all_images st'))) \<or> p \<in> set (elems arr)"
    with sub have "p \<in> set (concat (map elems (all_images st')))" by blast
    then obtain img where "img \<in> set (all_images st')" "p \<in> set (elems img)" by auto
    from final_pixels [OF assms(4) this(1) [unfolded st'_def] this(2)]
    have "\<exists>w t x. x \<in> set (elems (raw_sample e a w t)) \<and>
                 p = to_uint8 e (clamp 0 255 (fl_mul e (fl_add e x (Fin 1)) (Fin 127.5)))"
      by (simp only: to_pixel_def)
    with unat_byte [of p] show "unat p \<le> 255 \<and>
              (\<exists>w t x. x \<in> set (elems (raw_sample e a w t)) \<and>
                 p = to_uint8 e (clamp 0 255 (fl_mul e (fl_add e x (Fin 1)) (Fin 127.5))))"
      by blast
  qed
  have cl: "\<forall>y v. clamp 0 255 y = Fin v \<longrightarrow>
              0 \<le> v \<and> v \<le> 255 \<and> uint (to_uint8 e (clamp 0 255 y)) = \<lfloor>v\<rfloor>"
  proof (intro allI impI)
    fix y v assume c: "clamp 0 255 y = Fin v"
    from clamp_range [OF c] have "0 \<le> v" "v \<le> 255" by blast+
    with to_uint8_exact [of v e] c
    show "0 \<le> v \<and> v \<le> 255 \<and> uint (to_uint8 e (clamp 0 255 y)) = \<lfloor>v\<rfloor>" by simp
  qed
  from f(1) f(4) [folded arr_def] res px cl show ?thesis by blast
qed

theorem pixels_are_clamped_bytes_witness:
  "1 \<le> num_samples args0 \<and> 1 \<le> batch_size args0 \<and> 1 \<le> world_size env0 \<and>
   sample_loop_contract env0 args0 \<and>
   to_pixel env0 (Fin (- 3)) = 0 \<and> to_pixel env0 (Fin (- 1 / 2)) = 63 \<and>
   to_pixel env0 (Fin 2) = 255 \<and>
   (\<exists>r arr lab. main env0 args0 = Some r \<and> run_result r = Inr (arr, lab) \<and>
      elems arr = [63, 63, 255, 63, 63, 255, 63, 63, 255] \<and>
      (\<forall>p \<in> set (elems arr). unat p \<le> 255))"
proof -
  have h: "1 \<le> num_samples args0" "1 \<le> batch_size args0" "1 \<le> world_size env0"
    by (simp_all add: args0_def env0_def)
  have px: "to_pixel env0 (Fin (- 3)) = 0" "to_pixel env0 (Fin (- 1 / 2)) = 63"
    "to_pixel env0 (Fin 2) = 255"
    by (simp_all add: to_pixel_def to_uint8_def clamp_def trunc_def env0_def)
  have res: "map_option run_result (main env0 args0) =
     Some (Inr (\<lparr>dim0 = 3, dim1 = 1, dim2 = 1, dim3 = 3,
                 elems = [63, 63, 255, 63, 63, 255, 63, 63, 255]\<rparr>, Some [0, 1, 0]))"
    by code_simp
  from pixels_are_clamped_bytes [OF h contract_env0] obtain r arr lab where
    r: "main env0 args0 = Some r" "run_result r = Inr (arr, lab)" and
    b: "\<forall>p. p \<in> set (elems arr) \<longrightarrow> unat p \<le> 255"
    by blast
  from r res have "elems arr = [63, 63, 255, 63, 63, 255, 63, 63, 255]" by auto
  with r b have "\<exists>r arr lab. main env0 args0 = Some r \<and> run_result r = Inr (arr, lab) \<and>
      elems arr = [63, 63, 255, 63, 63, 255, 63, 63, 255] \<and>
      (\<forall>p \<in> set (elems arr). unat p \<le> 255)"
    by blast
  with h contract_env0 px show ?thesis by blast
qed

subsection \<open>Calls of the sampling routine\<close>

text \<open>
  Claim C6. The script dispatches to the sampling routine and does nothing else to a
  sample than convert and permute it: a run calls the routine once in every iteration,
  \<open>ddim_sample_loop\<close> when \<open>use_ddim\<close> is set and \<open>p_sample_loop\<close> otherwise, with the
  shape \<open>(batch_size, 3, image_size, image_size)\<close>, and the arrays in \<open>all_images\<close> are
  the values the routine returned, turned into bytes and permuted.
\<close>

theorem script_dispatches_to_sampling_routine:
  assumes "1 \<le> batch_size a" and "1 \<le> world_size e"
  shows "\<exists>k st' r.
           sampling_loop e a init_state = Some st' \<and> main e a = Some r \<and>
           k = iterations a (world_size e) \<and>
           sample_calls (run_events r) =
             map (\<lambda>t. Sample_call (if use_ddim a then Ddim_sample_loop else P_sample_loop)
                        (batch_size a, 3, image_size a, image_size a) (clip_denoised a)
                        (model_kwargs e a (rank e) t) (guidance_kwargs a)) [0..<k] \<and>
           all_images st' =
             concat (map (\<lambda>t. map (\<lambda>w. permute_0231 (map_tensor (to_pixel e)
                        (sample_loop e (if use_ddim a then Ddim_sample_loop else P_sample_loop)
                           (batch_size a, 3, image_size a, image_size a) (clip_denoised a)
                           (model_kwargs e a w t) (guidance_kwargs a) w t)))
                      [0..<world_size e]) [0..<k])"
proof -
  define k where "k = iterations a (world_size e)"
  let ?st = "(loop_body e a ^^ k) init_state"
  have fn: "sample_fn a = (if use_ddim a then Ddim_sample_loop else P_sample_loop)"
    by (simp add: sample_fn_def)
  have "sampling_loop e a init_state = Some ?st"
    unfolding k_def using assms by (rule sampling_loop_result)
  moreover have "all_images ?st =
             concat (map (\<lambda>t. map (\<lambda>w. permute_0231 (map_tensor (to_pixel e)
                        (sample_loop e (if use_ddim a then Ddim_sample_loop else P_sample_loop)
                           (batch_size a, 3, image_size a, image_size a) (clip_denoised a)
                           (model_kwargs e a w t) (guidance_kwargs a) w t)))
                      [0..<world_size e]) [0..<k])"
    by (simp only: iterate_images init_state_def state.simps append_Nil add_0
        gathered_samples_fn fn shape_arg_def)
  ultimately show ?thesis using run_sample_calls [OF assms] k_def by blast
qed

theorem script_dispatches_to_sampling_routine_witness:
  "1 \<le> batch_size args0 \<and> 1 \<le> world_size env0 \<and>
   map_option (sample_calls \<circ> run_events) (main env0 args0) =
     Some [Sample_call P_sample_loop (1, 3, 1, 1) True [(''y'', [0])]
             [(''guide_start'', PInt 250), (''guide_scale'', PFloat 1.1),
              (''blur_sigma'', PFloat 3)],
           Sample_call P_sample_loop (1, 3, 1, 1) True [(''y'', [0])]
             [(''guide_start'', PInt 250), (''guide_scale'', PFloat 1.1),
              (''blur_sigma'', PFloat 3)]] \<and>
   map_option (sample_calls \<circ> run_events) (main env0 (args0\<lparr>use_ddim := True\<rparr>)) =
     Some [Sample_call Ddim_sample_loop (1, 3, 1, 1) True [(''y'', [0])]
             [(''guide_start'', PInt 250), (''guide_scale'', PFloat 1.1),
              (''blur_sigma'', PFloat 3)],
           Sample_call Ddim_sample_loop (1, 3, 1, 1) True [(''y'', [0])]
             [(''guide_start'', PInt 250), (''guide_scale'', PFloat 1.1),
              (''blur_sigma'', PFloat 3)]] \<and>
   (\<exists>r. main env0 args0 = Some r \<and> length (sample_calls (run_events r)) = 2)"
proof -
  have h: "1 \<le> batch_size args0" "1 \<le> world_size env0"
    by (simp_all add: args0_def env0_def)
  have p: "map_option (sample_calls \<circ> run_events) (main env0 args0) =
     Some [Sample_call P_sample_loop (1, 3, 1, 1) True [(''y'', [0])]
             [(''guide_start'', PInt 250), (''guide_scale'', PFloat 1.1),
              (''blur_sigma'', PFloat 3)],
           Sample_call P_sample_loop (1, 3, 1, 1) True [(''y'', [0])]
             [(''guide_start'', PInt 250), (''guide_scale'', PFloat 1.1),
              (''blur_sigma'', PFloat 3)]]"
    by code_simp
  have d: "map_option (sample_calls \<circ> run_events) (main env0 (args0\<lparr>use_ddim := True\<rparr>)) =
     Some [Sample_call Ddim_sample_loop (1, 3, 1, 1) True [(''y'', [0])]
             [(''guide_start'', PInt 250), (''guide_scale'', PFloat 1.1),
              (''blur_sigma'', PFloat 3)],
           Sample_call Ddim_sample_loop (1, 3, 1, 1) True [(''y'', [0])]
             [(''guide_start'', PInt 250), (''guide_scale'', PFloat 1.1),
              (''blur_sigma'', PFloat 3)]]"
    by code_simp
  from script_dispatches_to_sampling_routine [OF h] iterations_env0
  have "\<exists>r. main env0 args0 = Some r \<and> length (sample_calls (run_events r)) = 2"
    by auto
  with h p d show ?thesis by blast
qed

text \<open>
  Claim C8. Every call of the sampling routine receives the same \<open>guidance_kwargs\<close>, the
  dictionary that maps \<open>guide_start\<close>, \<open>guide_scale\<close> and \<open>blur_sigma\<close> to the values
  of the arguments of these names.
\<close>

theorem guidance_kwargs_passed_unchanged:
  assumes "1 \<le> batch_size a" and "1 \<le> world_size e"
  shows "\<exists>r. main e a = Some r \<and>
           length (sample_calls (run_events r)) = iterations a (world_size e) \<and>
           (\<forall>f sh c mk gk. Sample_call f sh c mk gk \<in> set (run_events r) \<longrightarrow>
              gk = guidance_kwargs a) \<and>
           guidance_kwargs a =
             [(''guide_start'', guide_start a), (''guide_scale'', guide_scale a),
              (''blur_sigma'', blur_sigma a)] \<and>
           map_of (guidance_kwargs a) ''guide_start'' = Some (guide_start a) \<and>
           map_of (guidance_kwargs a) ''guide_scale'' = Some (guide_scale a) \<and>
           map_of (guidance_kwargs a) ''blur_sigma'' = Some (blur_sigma a)"
proof -
  from run_sample_calls [OF assms] obtain r where
    r: "main e a = Some r" and
    calls: "sample_calls (run_events r) =
             map (\<lambda>t. Sample_call (if use_ddim a then Ddim_sample_loop else P_sample_loop)
                        (batch_size a, 3, image_size a, image_size a) (clip_denoised a)
                        (model_kwargs e a (rank e) t) (guidance_kwargs a))
               [0..<iterations a (world_size e)]"
    by blast
  have len: "length (sample_calls (run_events r)) = iterations a (world_size e)"
    by (simp add: calls)
  have same: "\<forall>f sh c mk gk. Sample_call f sh c mk gk \<in> set (run_events r) \<longrightarrow>
              gk = guidance_kwargs a"
  proof (intro allI impI)
    fix f sh c mk gk
    assume "Sample_call f sh c mk gk \<in> set (run_events r)"
    then have "Sample_call f sh c mk gk \<in> set (sample_calls (run_events r))"
      by (rule sample_call_in_sample_calls)
    then show "gk = guidance_kwargs a" unfolding calls by auto
  qed
  have g: "guidance_kwargs a =
             [(''guide_start'', guide_start a), (''guide_scale'', guide_scale a),
              (''blur_sigma'', blur_sigma a)]"
    by (simp add: guidance_kwargs_def)
  have m: "map_of (guidance_kwargs a) ''guide_start'' = Some (guide_start a)"
    "map_of (guidance_kwargs a) ''guide_scale'' = Some (guide_scale a)"
    "map_of (guidance_kwargs a) ''blur_sigma'' = Some (blur_sigma a)"
    by (simp_all add: g)
  from r len same g m show ?thesis by blast
qed

theorem guidance_kwargs_passed_unchanged_witness:
  "1 \<le> batch_size args0 \<and> 1 \<le> world_size env0 \<and>
   guidance_kwargs args0 =
     [(''guide_start'', PInt 250), (''guide_scale'', PFloat 1.1), (''blur_sigma'', PFloat 3)] \<and>
   (\<exists>r. main env0 args0 = Some r \<and> length (sample_calls (run_events r)) = 2 \<and>
        (\<forall>f sh c mk gk. Sample_call f sh c mk gk \<in> set (run_events r) \<longrightarrow>
           gk = [(''guide_start'', PInt 250), (''guide_scale'', PFloat 1.1),
                 (''blur_sigma'', PFloat 3)]))"
proof -
  have h: "1 \<le> batch_size args0" "1 \<le> world_size env0"
    by (simp_all add: args0_def env0_def)
  have g: "guidance_kwargs args0 =
     [(''guide_start'', PInt 250), (''guide_scale'', PFloat 1.1), (''blur_sigma'', PFloat 3)]"
    by (simp add: guidance_kwargs_def args0_def)
  from guidance_kwargs_passed_unchanged [OF h] obtain r where
    "main env0 args0 = Some r"
    "length (sample_calls (run_events r)) = iterations args0 (world_size env0)"
    "\<forall>f sh c mk gk. Sample_call f sh c mk gk \<in> set (run_events r) \<longrightarrow>
        gk = guidance_kwargs args0"
    by blast
  then have "\<exists>r. main env0 args0 = Some r \<and> length (sample_calls (run_events r)) = 2 \<and>
        (\<forall>f sh c mk gk. Sample_call f sh c mk gk \<in> set (run_events r) \<longrightarrow>
           gk = [(''guide_start'', PInt 250), (''guide_scale'', PFloat 1.1),
                 (''blur_sigma'', PFloat 3)])"
    unfolding g iterations_env0 by blast
  with h g show ?thesis by blast
qed

end
